theory Spec2Isabelle
  imports Main "HOL-Library.Sublist"
begin

section \<open>Exceptions\<close>

text \<open>
  A Python exception is a class and a message (what \<open>str(e)\<close> gives). Every failing
  system call (\<open>FileExistsError\<close>, \<open>IsADirectoryError\<close>, \<open>NotADirectoryError\<close> and a
  \<open>FileNotFoundError\<close> raised by the operating system) is of kind \<open>OSError\<close>, their
  common base class; \<open>FileNotFoundError\<close> is kept for the explicit \<open>raise\<close> of
  \<open>extract_content\<close>. \<open>LibraryError\<close> stands for whatever a document library raises.
\<close>

datatype kind =
  FileNotFoundError | ValueError | OSError | NotImplementedError | RuntimeError
  | LibraryError | Exception

datatype exn = Exn (kind: kind) (message: string)

type_synonym 'a result = "exn + 'a"

section \<open>Files, archives and the directory tree\<close>

text \<open>
  A path is the list of its components below a fixed base directory. A file holds bytes,
  or, when it is a zip archive, the members of the archive. A member carries the fields
  of its \<open>ZipInfo\<close> that matter here: the name, the compression method, bit 0 of
  \<open>flag_bits\<close> (the member is encrypted), and the data. \<open>compress_type\<close> is an arbitrary
  Python object, since Python does not check it before \<open>_check_compression\<close> does.
\<close>

type_synonym path = "string list"

datatype pyobj = PyInt int | PyZipInfo path

datatype content = Bytes string | Zip "zentry list"
and zentry = ZEntry (filename: path) (compress_type: pyobj) (encrypted: bool) (data: content)

datatype node = File content | Dir "(string \<times> node) list"

primrec lookup :: "path \<Rightarrow> node \<Rightarrow> node option" where
  "lookup [] t = Some t"
| "lookup (c # cs) t =
     (case t of
        File _ \<Rightarrow> None
      | Dir es \<Rightarrow> (case map_of es c of None \<Rightarrow> None | Some m \<Rightarrow> lookup cs m))"

definition is_dir :: "path \<Rightarrow> node \<Rightarrow> bool" where
  "is_dir p fs = (case lookup p fs of Some (Dir _) \<Rightarrow> True | _ \<Rightarrow> False)"

definition exists :: "path \<Rightarrow> node \<Rightarrow> bool" where
  "exists p fs = (lookup p fs \<noteq> None)"

text \<open>Sets (\<open>Some\<close>) or deletes (\<open>None\<close>) the entry of a name in a directory listing.\<close>

fun set_entry :: "string \<Rightarrow> node option \<Rightarrow> (string \<times> node) list \<Rightarrow> (string \<times> node) list" where
  "set_entry c None [] = []"
| "set_entry c (Some n) [] = [(c, n)]"
| "set_entry c v ((k, m) # es) =
     (if k = c then (case v of None \<Rightarrow> set_entry c None es | Some n \<Rightarrow> (c, n) # es)
      else (k, m) # set_entry c v es)"

text \<open>
  Sets or deletes the node at a path whose parent is an existing directory; \<open>None\<close> when
  the parent is missing or is a file, or when the path is the base directory itself.
\<close>

primrec update :: "path \<Rightarrow> node option \<Rightarrow> node \<Rightarrow> node option" where
  "update [] v t = None"
| "update (c # cs) v t =
     (case t of
        File _ \<Rightarrow> None
      | Dir es \<Rightarrow>
          if cs = [] then Some (Dir (set_entry c v es))
          else (case map_of es c of
                  None \<Rightarrow> None
                | Some m \<Rightarrow> (case update cs v m of
                              None \<Rightarrow> None
                            | Some m' \<Rightarrow> Some (Dir (set_entry c (Some m') es)))))"

definition os_error :: "string \<Rightarrow> 'a result" where
  "os_error msg = Inl (Exn OSError msg)"

text \<open>\<open>open(p, 'w')\<close>, write, close: creates the file or replaces its content.\<close>

definition write_file :: "path \<Rightarrow> content \<Rightarrow> node \<Rightarrow> node result" where
  "write_file p c fs =
     (case lookup p fs of
        Some (Dir _) \<Rightarrow> os_error ''Is a directory''
      | _ \<Rightarrow> (case update p (Some (File c)) fs of
                None \<Rightarrow> os_error ''No such file or directory''
              | Some fs' \<Rightarrow> Inr fs'))"

text \<open>\<open>open(p, 'rb').read()\<close>.\<close>

definition read_file :: "path \<Rightarrow> node \<Rightarrow> content result" where
  "read_file p fs =
     (case lookup p fs of
        Some (File c) \<Rightarrow> Inr c
      | Some (Dir _) \<Rightarrow> os_error ''Is a directory''
      | None \<Rightarrow> os_error ''No such file or directory'')"

text \<open>\<open>Path.mkdir(exist_ok=True)\<close>.\<close>

definition mkdir :: "path \<Rightarrow> node \<Rightarrow> node result" where
  "mkdir p fs =
     (case lookup p fs of
        Some (Dir _) \<Rightarrow> Inr fs
      | Some (File _) \<Rightarrow> os_error ''File exists''
      | None \<Rightarrow> (case update p (Some (Dir [])) fs of
                   None \<Rightarrow> os_error ''No such file or directory''
                 | Some fs' \<Rightarrow> Inr fs'))"

text \<open>\<open>Path.mkdir(parents=True, exist_ok=True)\<close>: missing ancestors are created first.\<close>

function mkdir_parents :: "path \<Rightarrow> node \<Rightarrow> node result" where
  "mkdir_parents p fs =
     (case lookup p fs of
        Some (Dir _) \<Rightarrow> Inr fs
      | Some (File _) \<Rightarrow> os_error ''File exists''
      | None \<Rightarrow>
          if p = [] then os_error ''No such file or directory''
          else (case mkdir_parents (butlast p) fs of
                  Inl e \<Rightarrow> Inl e
                | Inr fs' \<Rightarrow> mkdir p fs'))"
  by pat_completeness auto
termination
  by (relation "measure (\<lambda>(p, fs). length p)") auto

text \<open>\<open>shutil.rmtree(p)\<close>: removes the directory and everything below it.\<close>

definition rmtree :: "path \<Rightarrow> node \<Rightarrow> node result" where
  "rmtree p fs =
     (case lookup p fs of
        Some (Dir _) \<Rightarrow> (case update p None fs of
                          None \<Rightarrow> os_error ''Cannot remove''
                        | Some fs' \<Rightarrow> Inr fs')
      | Some (File _) \<Rightarrow> os_error ''Not a directory''
      | None \<Rightarrow> os_error ''No such file or directory'')"

text \<open>\<open>os.remove(p)\<close>.\<close>

definition remove :: "path \<Rightarrow> node \<Rightarrow> node result" where
  "remove p fs =
     (case lookup p fs of
        Some (File _) \<Rightarrow> (case update p None fs of
                           None \<Rightarrow> os_error ''Cannot remove''
                         | Some fs' \<Rightarrow> Inr fs')
      | Some (Dir _) \<Rightarrow> os_error ''Is a directory''
      | None \<Rightarrow> os_error ''No such file or directory'')"

text \<open>\<open>os.rename(src, dst)\<close> of a file, replacing a file at \<open>dst\<close>.\<close>

definition rename :: "path \<Rightarrow> path \<Rightarrow> node \<Rightarrow> node result" where
  "rename src dst fs =
     (case lookup src fs of
        Some (File c) \<Rightarrow>
          (case write_file dst c fs of
             Inl e \<Rightarrow> Inl e
           | Inr fs' \<Rightarrow> if src = dst then Inr fs' else remove src fs')
      | Some (Dir _) \<Rightarrow> os_error ''Is a directory''
      | None \<Rightarrow> os_error ''No such file or directory'')"

text \<open>
  The files that \<open>os.walk\<close> reports below a directory, each with its path relative to
  that directory: the files of the directory itself in listing order, then the
  subdirectories in listing order. Directories are not reported as files.
\<close>

fun walk_files :: "node \<Rightarrow> (path \<times> content) list" where
  "walk_files (File c) = []"
| "walk_files (Dir es) =
     concat (map (\<lambda>(n, m). case m of File c \<Rightarrow> [([n], c)] | Dir _ \<Rightarrow> []) es) @
     concat (map (\<lambda>(n, m). case m of File _ \<Rightarrow> []
                                   | Dir _ \<Rightarrow> map (\<lambda>(p, c). (n # p, c)) (walk_files m)) es)"

text \<open>\<open>os.walk(top)\<close> yields nothing when \<open>top\<close> is missing or is not a directory.\<close>

definition os_walk :: "path \<Rightarrow> node \<Rightarrow> (path \<times> content) list" where
  "os_walk top_dir fs = (case lookup top_dir fs of Some (Dir es) \<Rightarrow> walk_files (Dir es) | _ \<Rightarrow> [])"

section \<open>The zipfile module\<close>

abbreviation ZIP_STORED :: pyobj where "ZIP_STORED \<equiv> PyInt 0"
abbreviation ZIP_DEFLATED :: pyobj where "ZIP_DEFLATED \<equiv> PyInt 8"
abbreviation ZIP_BZIP2 :: pyobj where "ZIP_BZIP2 \<equiv> PyInt 12"
abbreviation ZIP_LZMA :: pyobj where "ZIP_LZMA \<equiv> PyInt 14"

text \<open>
  \<open>zipfile._check_compression\<close>: the four known methods pass (their modules are taken
  to be installed), anything else raises \<open>NotImplementedError\<close>.
\<close>

definition check_compression :: "pyobj \<Rightarrow> unit result" where
  "check_compression compression =
     (if compression = ZIP_STORED then Inr ()
      else if compression = ZIP_DEFLATED then Inr ()
      else if compression = ZIP_BZIP2 then Inr ()
      else if compression = ZIP_LZMA then Inr ()
      else Inl (Exn NotImplementedError ''That compression method is not supported''))"

text \<open>
  \<open>ZipFile.write(filename, arcname)\<close> on an archive opened with \<open>ZIP_DEFLATED\<close>, given
  the content read from \<open>filename\<close>: the member gets the archive's compression method
  and \<open>flag_bits = 0\<close>, so it is never encrypted.
\<close>

definition ZipFile_write :: "zentry list \<Rightarrow> path \<Rightarrow> content \<Rightarrow> zentry list result" where
  "ZipFile_write archive arcname c =
     (case check_compression ZIP_DEFLATED of
        Inl e \<Rightarrow> Inl e
      | Inr _ \<Rightarrow> Inr (archive @ [ZEntry arcname ZIP_DEFLATED False c]))"

text \<open>\<open>ZipFile.read(item)\<close> with no password: an encrypted member cannot be read.\<close>

definition ZipFile_read :: "zentry \<Rightarrow> content result" where
  "ZipFile_read item =
     (if encrypted item then Inl (Exn RuntimeError ''password required for extraction'')
      else Inr (data item))"

text \<open>
  \<open>ZipFile.writestr(zinfo, data, compress_type)\<close> with a \<open>ZipInfo\<close> as first argument:
  a \<open>compress_type\<close> other than \<open>None\<close> replaces the member's method, then
  \<open>_writecheck\<close> checks the method before anything is written; the member is written
  with \<open>flag_bits = 0\<close>.
\<close>

definition ZipFile_writestr :: "zentry list \<Rightarrow> zentry \<Rightarrow> content \<Rightarrow> pyobj option \<Rightarrow> zentry list result" where
  "ZipFile_writestr archive zinfo d compress_type_arg =
     (let method = (case compress_type_arg of None \<Rightarrow> compress_type zinfo | Some t \<Rightarrow> t) in
      case check_compression method of
        Inl e \<Rightarrow> Inl e
      | Inr _ \<Rightarrow> Inr (archive @ [ZEntry (filename zinfo) method False d]))"

section \<open>FileExtractor.encrypt_folder\<close>

text \<open>
  \<open>f"{folder_path}.zip"\<close>: the text is appended to the last component; the string of
  the empty path is \<open>"."\<close>.
\<close>

definition path_plus :: "path \<Rightarrow> string \<Rightarrow> path" where
  "path_plus p s = (if p = [] then [''.'' @ s] else butlast p @ [last p @ s])"

text \<open>The first loop: every file found by \<open>os.walk\<close> is written under its relative path.\<close>

fun write_walked :: "zentry list \<Rightarrow> (path \<times> content) list \<Rightarrow> zentry list \<times> exn option" where
  "write_walked zipf [] = (zipf, None)"
| "write_walked zipf ((arcname, c) # files) =
     (case ZipFile_write zipf arcname c of
        Inl e \<Rightarrow> (zipf, Some e)
      | Inr zipf' \<Rightarrow> write_walked zipf' files)"

text \<open>
  The second loop: \<open>zip_write.writestr(item, zip_read.read(item),
  zipfile.ZipInfo(item.filename))\<close>. The third positional parameter of \<open>writestr\<close> is
  \<open>compress_type\<close>, so the fresh \<open>ZipInfo\<close> is taken as the compression method.
\<close>

fun copy_items :: "zentry list \<Rightarrow> zentry list \<Rightarrow> zentry list \<times> exn option" where
  "copy_items zip_write [] = (zip_write, None)"
| "copy_items zip_write (item # items) =
     (case ZipFile_read item of
        Inl e \<Rightarrow> (zip_write, Some e)
      | Inr d \<Rightarrow>
          (case ZipFile_writestr zip_write item d (Some (PyZipInfo (filename item))) of
             Inl e \<Rightarrow> (zip_write, Some e)
           | Inr zip_write' \<Rightarrow> copy_items zip_write' items))"

text \<open>
  Opening a \<open>ZipFile\<close> for writing creates or truncates the file, which can fail;
  leaving the \<open>with\<close> block, also by an exception, closes the archive through the
  handle already open, and the file then holds the members written so far.
\<close>

definition ZipFile_close :: "path \<Rightarrow> zentry list \<Rightarrow> node \<Rightarrow> node" where
  "ZipFile_close p members fs =
     (case update p (Some (File (Zip members))) fs of None \<Rightarrow> fs | Some fs' \<Rightarrow> fs')"

text \<open>Lines 56 to 61: the folder is walked into a new archive at \<open>zip_path\<close>.\<close>

definition archive_folder :: "path \<Rightarrow> path \<Rightarrow> node \<Rightarrow> node \<times> exn option" where
  "archive_folder folder_path zip_path fs =
     (case write_file zip_path (Bytes []) fs of
        Inl e \<Rightarrow> (fs, Some e)
      | Inr fs1 \<Rightarrow>
          (case write_walked [] (os_walk folder_path fs1) of
             (zipf, r) \<Rightarrow> (ZipFile_close zip_path zipf fs1, r)))"

text \<open>Lines 64 to 68: the archive is read back and its members copied to \<open>temp_zip\<close>.\<close>

definition rewrite_archive :: "path \<Rightarrow> path \<Rightarrow> node \<Rightarrow> node \<times> exn option" where
  "rewrite_archive zip_path temp_zip fs =
     (case read_file zip_path fs of
        Inl e \<Rightarrow> (fs, Some e)
      | Inr (Bytes _) \<Rightarrow> (fs, Some (Exn LibraryError ''File is not a zip file''))
      | Inr (Zip infolist) \<Rightarrow>
          (case write_file temp_zip (Bytes []) fs of
             Inl e \<Rightarrow> (fs, Some e)
           | Inr fs1 \<Rightarrow>
               (case copy_items [] infolist of
                  (written, r) \<Rightarrow> (ZipFile_close temp_zip written fs1, r))))"

text \<open>
  The result is the file system left behind and either the exception raised or the
  path returned. \<open>password\<close> is a parameter, as in the source.
\<close>

definition encrypt_folder :: "path \<Rightarrow> string \<Rightarrow> node \<Rightarrow> node \<times> path result" where
  "encrypt_folder folder_path password fs =
     (let zip_path = path_plus folder_path ''.zip'' in
      case archive_folder folder_path zip_path fs of
        (fs1, Some e) \<Rightarrow> (fs1, Inl e)
      | (fs1, None) \<Rightarrow>
          (let temp_zip = path_plus folder_path ''_temp.zip'' in
           case rewrite_archive zip_path temp_zip fs1 of
             (fs2, Some e) \<Rightarrow> (fs2, Inl e)
           | (fs2, None) \<Rightarrow>
               (case remove zip_path fs2 of
                  Inl e \<Rightarrow> (fs2, Inl e)
                | Inr fs3 \<Rightarrow>
                    (case rename temp_zip zip_path fs3 of
                       Inl e \<Rightarrow> (fs3, Inl e)
                     | Inr fs4 \<Rightarrow> (fs4, Inr zip_path)))))"

section \<open>Strings and paths\<close>

text \<open>
  A \<open>str\<close> is modelled as a list of code points below 256. \<open>str.lower\<close> on these maps
  \<open>A\<close> to \<open>Z\<close> and the capital letters of Latin-1 (code points 192 to 222 but the
  multiplication sign 215) to the letter 32 places later.
\<close>

definition lower_char :: "char \<Rightarrow> char" where
  "lower_char c =
     (let n = (of_char c :: nat) in
      if (65 \<le> n \<and> n \<le> 90) \<or> (192 \<le> n \<and> n \<le> 222 \<and> n \<noteq> 215) then char_of (n + 32) else c)"

definition lower :: "string \<Rightarrow> string" where
  "lower s = map lower_char s"

text \<open>The characters \<open>str.strip()\<close> removes: those for which \<open>str.isspace\<close> holds.\<close>

definition isspace :: "char \<Rightarrow> bool" where
  "isspace c =
     (let n = (of_char c :: nat) in
      (9 \<le> n \<and> n \<le> 13) \<or> (28 \<le> n \<and> n \<le> 32) \<or> n = 133 \<or> n = 160)"

definition strip :: "string \<Rightarrow> string" where
  "strip s = rev (dropWhile isspace (rev (dropWhile isspace s)))"

text \<open>\<open>str.rfind\<close> of a character: the last index, \<open>None\<close> for Python's \<open>-1\<close>.\<close>

definition rfind :: "char \<Rightarrow> string \<Rightarrow> nat option" where
  "rfind c s =
     (if c \<in> set s then Some (length s - 1 - length (takeWhile (\<lambda>x. x \<noteq> c) (rev s))) else None)"

text \<open>\<open>PurePath.name\<close>, \<open>suffix\<close> and \<open>stem\<close>.\<close>

definition name :: "path \<Rightarrow> string" where
  "name p = (if p = [] then [] else last p)"

definition suffix_of :: "path \<Rightarrow> string" where
  "suffix_of p =
     (case rfind CHR ''.'' (name p) of
        None \<Rightarrow> []
      | Some i \<Rightarrow> if 0 < i \<and> i < length (name p) - 1 then drop i (name p) else [])"

definition stem :: "path \<Rightarrow> string" where
  "stem p =
     (case rfind CHR ''.'' (name p) of
        None \<Rightarrow> name p
      | Some i \<Rightarrow> if 0 < i \<and> i < length (name p) - 1 then take i (name p) else name p)"

text \<open>\<open>str(path)\<close>, for messages.\<close>

fun path_str :: "path \<Rightarrow> string" where
  "path_str [] = ''.''"
| "path_str [c] = c"
| "path_str (c # cs) = c @ ''/'' @ path_str cs"

text \<open>\<open>str(n)\<close> of a natural number, and the format \<open>{n:03d}\<close>.\<close>

definition digit :: "nat \<Rightarrow> char" where
  "digit d = char_of (48 + d)"

function str_nat :: "nat \<Rightarrow> string" where
  "str_nat n = (if n < 10 then [digit n] else str_nat (n div 10) @ [digit (n mod 10)])"
  by pat_completeness auto
termination
  by (relation "measure id") auto

definition fmt_03d :: "nat \<Rightarrow> string" where
  "fmt_03d n = replicate (3 - length (str_nat n)) CHR ''0'' @ str_nat n"

section \<open>The document libraries\<close>

text \<open>
  What PyPDF2, pdf2image, python-docx, python-pptx, PIL with pytesseract and the UTF-8
  codec return is not decided by this program: it is a parameter, a function of the
  content of the input file. A PDF is the list of its pages, each the outcome of
  \<open>page.extract_text()\<close>; a rendered page or an embedded image is the content that
  saving it writes.
\<close>

record docx =
  paragraphs :: "string list"
  rels :: "(string \<times> content) list"

record shape =
  shape_text :: "string option"
  shape_image :: "content option"

record libs =
  PdfReader :: "content \<Rightarrow> (exn + string) list result"
  convert_from_path :: "content \<Rightarrow> content list result"
  Document :: "content \<Rightarrow> docx result"
  Presentation :: "content \<Rightarrow> shape list list result"
  decode_ignore :: "content \<Rightarrow> string"
  image_to_string :: "content \<Rightarrow> string result"

section \<open>The extraction handlers\<close>

text \<open>
  A handler gets the file system and returns the one it leaves, with the exception it
  raised if it raised one. A text file holds the text written to it.
\<close>

definition text_file :: "path \<Rightarrow> path" where
  "text_file text_folder = text_folder @ [''extracted_text.txt'']"

text \<open>Line 119: the block \<open>f"--- Page {page_num} ---\n{text}\n"\<close> of a page.\<close>

definition page_block :: "nat \<Rightarrow> string \<Rightarrow> string" where
  "page_block page_num text =
     ''--- Page '' @ str_nat page_num @ '' ---'' @ [CHR 0x0A] @ text @ [CHR 0x0A]"

text \<open>Lines 116 to 119: the loop over \<open>enumerate(pdf_reader.pages, 1)\<close>.\<close>

fun pdf_pages :: "string list \<Rightarrow> nat \<Rightarrow> (exn + string) list \<Rightarrow> string list result" where
  "pdf_pages text_content page_num [] = Inr text_content"
| "pdf_pages text_content page_num (page # pages) =
     (case page of
        Inl e \<Rightarrow> Inl e
      | Inr text \<Rightarrow>
          pdf_pages
            (if strip text \<noteq> []
             then text_content @ [page_block page_num text]
             else text_content)
            (Suc page_num) pages)"

text \<open>Lines 113 to 124: the text of a PDF.\<close>

definition pdf_text :: "libs \<Rightarrow> path \<Rightarrow> path \<Rightarrow> node \<Rightarrow> node \<times> exn option" where
  "pdf_text L file_path text_folder fs =
     (case read_file file_path fs of
        Inl e \<Rightarrow> (fs, Some e)
      | Inr bytes \<Rightarrow>
          (case PdfReader L bytes of
             Inl e \<Rightarrow> (fs, Some e)
           | Inr pages \<Rightarrow>
               (case pdf_pages [] 1 pages of
                  Inl e \<Rightarrow> (fs, Some e)
                | Inr text_content \<Rightarrow>
                    if text_content \<noteq> [] then
                      (case write_file (text_file text_folder) (Bytes (concat text_content)) fs of
                         Inl e \<Rightarrow> (fs, Some e)
                       | Inr fs' \<Rightarrow> (fs', None))
                    else (fs, None))))"

text \<open>
  Lines 129 to 132: the rendered pages are saved until one cannot be; the exception is
  caught by the \<open>try\<close> around the loop and only printed.
\<close>

fun save_pages :: "path \<Rightarrow> nat \<Rightarrow> content list \<Rightarrow> node \<Rightarrow> node" where
  "save_pages images_folder i [] fs = fs"
| "save_pages images_folder i (img # images) fs =
     (case write_file (images_folder @ [''page_'' @ fmt_03d i @ ''.png'']) img fs of
        Inl e \<Rightarrow> fs
      | Inr fs' \<Rightarrow> save_pages images_folder (Suc i) images fs')"

definition pdf_images :: "libs \<Rightarrow> path \<Rightarrow> path \<Rightarrow> node \<Rightarrow> node" where
  "pdf_images L file_path images_folder fs =
     (case read_file file_path fs of
        Inl e \<Rightarrow> fs
      | Inr bytes \<Rightarrow>
          (case convert_from_path L bytes of
             Inl e \<Rightarrow> fs
           | Inr images \<Rightarrow> save_pages images_folder 1 images fs))"

definition extract_pdf :: "libs \<Rightarrow> path \<Rightarrow> path \<Rightarrow> path \<Rightarrow> node \<Rightarrow> node \<times> exn option" where
  "extract_pdf L file_path text_folder images_folder fs =
     (case pdf_text L file_path text_folder fs of
        (fs1, Some e) \<Rightarrow> (fs1, Some e)
      | (fs1, None) \<Rightarrow> (pdf_images L file_path images_folder fs1, None))"

text \<open>A list of numbered files written in turn; the first failure raises.\<close>

fun write_files :: "(path \<times> content) list \<Rightarrow> node \<Rightarrow> node \<times> exn option" where
  "write_files [] fs = (fs, None)"
| "write_files ((p, c) # rest) fs =
     (case write_file p c fs of
        Inl e \<Rightarrow> (fs, Some e)
      | Inr fs' \<Rightarrow> write_files rest fs')"

text \<open>\<open>"image" in rel.target_ref\<close>.\<close>

definition contains :: "string \<Rightarrow> string \<Rightarrow> bool" where
  "contains s sub = sublist sub s"

text \<open>Lines 153 to 160: the images of a DOCX, numbered from 1 in the order of the relationships.\<close>

definition docx_images :: "path \<Rightarrow> (string \<times> content) list \<Rightarrow> (path \<times> content) list" where
  "docx_images images_folder rs =
     (let blobs = map snd (filter (\<lambda>(target_ref, blob). contains target_ref ''image'') rs) in
      map (\<lambda>(image_count, blob). (images_folder @ [''image_'' @ fmt_03d image_count @ ''.png''], blob))
        (zip [1 ..< Suc (length blobs)] blobs))"

definition extract_docx :: "libs \<Rightarrow> path \<Rightarrow> path \<Rightarrow> path \<Rightarrow> node \<Rightarrow> node \<times> exn option" where
  "extract_docx L file_path text_folder images_folder fs =
     (case read_file file_path fs of
        Inl e \<Rightarrow> (fs, Some e)
      | Inr bytes \<Rightarrow>
          (case Document L bytes of
             Inl e \<Rightarrow> (fs, Some e)
           | Inr doc \<Rightarrow>
               (let text_content =
                      map (\<lambda>t. t @ [CHR 0x0A]) (filter (\<lambda>t. strip t \<noteq> []) (paragraphs doc)) in
                case (if text_content \<noteq> []
                      then write_file (text_file text_folder) (Bytes (concat text_content)) fs
                      else Inr fs) of
                  Inl e \<Rightarrow> (fs, Some e)
                | Inr fs1 \<Rightarrow> write_files (docx_images images_folder (rels doc)) fs1)))"

text \<open>Lines 169 to 174: the text of the slides.\<close>

definition slide_text :: "nat \<Rightarrow> shape list \<Rightarrow> string list" where
  "slide_text slide_num shapes =
     [''--- Slide '' @ str_nat slide_num @ '' ---'' @ [CHR 0x0A]] @
     concat (map (\<lambda>sh. case shape_text sh of
                          None \<Rightarrow> []
                        | Some t \<Rightarrow> if strip t \<noteq> [] then [t @ [CHR 0x0A]] else []) shapes) @
     [[CHR 0x0A]]"

text \<open>
  Lines 182 to 190: the images of the slides; \<open>image_count\<close> runs over the whole
  presentation.
\<close>

fun slide_images :: "path \<Rightarrow> nat \<Rightarrow> nat \<Rightarrow> shape list \<Rightarrow> (path \<times> content) list \<times> nat" where
  "slide_images images_folder slide_num image_count [] = ([], image_count)"
| "slide_images images_folder slide_num image_count (sh # shapes) =
     (case shape_image sh of
        None \<Rightarrow> slide_images images_folder slide_num image_count shapes
      | Some blob \<Rightarrow>
          (case slide_images images_folder slide_num (Suc image_count) shapes of
             (files, n) \<Rightarrow>
               ((images_folder @ [''slide_'' @ str_nat slide_num @ ''_image_'' @
                    fmt_03d (Suc image_count) @ ''.png''], blob) # files, n)))"

fun pptx_images :: "path \<Rightarrow> nat \<Rightarrow> nat \<Rightarrow> shape list list \<Rightarrow> (path \<times> content) list" where
  "pptx_images images_folder slide_num image_count [] = []"
| "pptx_images images_folder slide_num image_count (slide # slides) =
     (case slide_images images_folder slide_num image_count slide of
        (files, n) \<Rightarrow> files @ pptx_images images_folder (Suc slide_num) n slides)"

definition extract_pptx :: "libs \<Rightarrow> path \<Rightarrow> path \<Rightarrow> path \<Rightarrow> node \<Rightarrow> node \<times> exn option" where
  "extract_pptx L file_path text_folder images_folder fs =
     (case read_file file_path fs of
        Inl e \<Rightarrow> (fs, Some e)
      | Inr bytes \<Rightarrow>
          (case Presentation L bytes of
             Inl e \<Rightarrow> (fs, Some e)
           | Inr slides \<Rightarrow>
               (let text_content =
                      concat (map (\<lambda>(slide_num, slide). slide_text slide_num slide)
                                (zip [1 ..< Suc (length slides)] slides)) in
                case (if text_content \<noteq> []
                      then write_file (text_file text_folder) (Bytes (concat text_content)) fs
                      else Inr fs) of
                  Inl e \<Rightarrow> (fs, Some e)
                | Inr fs1 \<Rightarrow> write_files (pptx_images images_folder 1 0 slides) fs1)))"

definition extract_txt :: "libs \<Rightarrow> path \<Rightarrow> path \<Rightarrow> path \<Rightarrow> node \<Rightarrow> node \<times> exn option" where
  "extract_txt L file_path text_folder images_folder fs =
     (case read_file file_path fs of
        Inl e \<Rightarrow> (fs, Some e)
      | Inr bytes \<Rightarrow>
          (case write_file (text_file text_folder) (Bytes (decode_ignore L bytes)) fs of
             Inl e \<Rightarrow> (fs, Some e)
           | Inr fs' \<Rightarrow> (fs', None)))"

text \<open>
  \<open>shutil.copy2(src, dst)\<close>: a directory at \<open>dst\<close> receives the file under its own
  name; copying a file onto itself raises \<open>SameFileError\<close>.
\<close>

definition copy2 :: "path \<Rightarrow> path \<Rightarrow> node \<Rightarrow> node result" where
  "copy2 src dst fs =
     (let dst' = (if is_dir dst fs then dst @ [name src] else dst) in
      if src = dst' then os_error ''are the same file''
      else (case read_file src fs of
              Inl e \<Rightarrow> Inl e
            | Inr bytes \<Rightarrow> write_file dst' bytes fs))"

text \<open>Lines 206 to 214: whatever the OCR step raises is caught and only printed.\<close>

definition image_ocr :: "libs \<Rightarrow> path \<Rightarrow> path \<Rightarrow> node \<Rightarrow> node" where
  "image_ocr L file_path text_folder fs =
     (case read_file file_path fs of
        Inl e \<Rightarrow> fs
      | Inr bytes \<Rightarrow>
          (case image_to_string L bytes of
             Inl e \<Rightarrow> fs
           | Inr text \<Rightarrow>
               if strip text \<noteq> [] then
                 (case write_file (text_file text_folder) (Bytes text) fs of
                    Inl e \<Rightarrow> fs
                  | Inr fs' \<Rightarrow> fs')
               else fs))"

definition extract_image :: "libs \<Rightarrow> path \<Rightarrow> path \<Rightarrow> path \<Rightarrow> node \<Rightarrow> node \<times> exn option" where
  "extract_image L file_path text_folder images_folder fs =
     (case copy2 file_path (images_folder @ [name file_path]) fs of
        Inl e \<Rightarrow> (fs, Some e)
      | Inr fs1 \<Rightarrow> (image_ocr L file_path text_folder fs1, None))"

section \<open>FileExtractor.extract_content\<close>

datatype handler = Extract_pdf | Extract_docx | Extract_pptx | Extract_txt | Extract_image

definition supported_formats :: "(string \<times> handler) list" where
  "supported_formats =
     [(''.pdf'', Extract_pdf), (''.docx'', Extract_docx), (''.pptx'', Extract_pptx),
      (''.txt'', Extract_txt), (''.jpg'', Extract_image), (''.jpeg'', Extract_image),
      (''.png'', Extract_image), (''.bmp'', Extract_image), (''.tiff'', Extract_image)]"

fun run_handler :: "handler \<Rightarrow> libs \<Rightarrow> path \<Rightarrow> path \<Rightarrow> path \<Rightarrow> node \<Rightarrow> node \<times> exn option" where
  "run_handler Extract_pdf = extract_pdf"
| "run_handler Extract_docx = extract_docx"
| "run_handler Extract_pptx = extract_pptx"
| "run_handler Extract_txt = extract_txt"
| "run_handler Extract_image = extract_image"

text \<open>Line 83 and the lookup of line 100: the handler an input path selects.\<close>

definition select_handler :: "path \<Rightarrow> handler option" where
  "select_handler input_file = map_of supported_formats (lower (suffix_of input_file))"

text \<open>
  Lines 79 to 96: the checks and the creation of the output folder. On success the
  result is the handler, the extension and the output folder.
\<close>

definition prepare :: "path \<Rightarrow> path \<Rightarrow> node \<Rightarrow> node \<times> (handler \<times> string \<times> path) result" where
  "prepare input_file output_dir fs =
     (if \<not> exists input_file fs
      then (fs, Inl (Exn FileNotFoundError (''File not found: '' @ path_str input_file)))
      else
        (let file_ext = lower (suffix_of input_file) in
         case select_handler input_file of
           None \<Rightarrow> (fs, Inl (Exn ValueError (''Unsupported file format: '' @ file_ext)))
         | Some h \<Rightarrow>
             (let output_folder = output_dir @ [stem input_file] in
              case mkdir_parents output_folder fs of
                Inl e \<Rightarrow> (fs, Inl e)
              | Inr fs1 \<Rightarrow>
                  (case mkdir (output_folder @ [''text'']) fs1 of
                     Inl e \<Rightarrow> (fs1, Inl e)
                   | Inr fs2 \<Rightarrow>
                       (case mkdir (output_folder @ [''images'']) fs2 of
                          Inl e \<Rightarrow> (fs2, Inl e)
                        | Inr fs3 \<Rightarrow> (fs3, Inr (h, file_ext, output_folder)))))))"

definition extract_content :: "libs \<Rightarrow> path \<Rightarrow> path \<Rightarrow> node \<Rightarrow> node \<times> path result" where
  "extract_content L input_file output_dir fs =
     (case prepare input_file output_dir fs of
        (fs1, Inl e) \<Rightarrow> (fs1, Inl e)
      | (fs1, Inr (h, file_ext, output_folder)) \<Rightarrow>
          (case run_handler h L input_file (output_folder @ [''text''])
                  (output_folder @ [''images'']) fs1 of
             (fs2, None) \<Rightarrow> (fs2, Inr output_folder)
           | (fs2, Some e) \<Rightarrow>
               (case rmtree output_folder fs2 of
                  Inl e' \<Rightarrow> (fs2, Inl e')
                | Inr fs3 \<Rightarrow>
                    (fs3, Inl (Exn Exception
                       (''Error extracting '' @ file_ext @ '' file: '' @ message e))))))"

section \<open>Passwords and main\<close>

text \<open>
  \<open>string.ascii_letters + string.digits + string.punctuation\<close>: 94 characters.
\<close>

definition ascii_letters :: string where
  "ascii_letters = ''abcdefghijklmnopqrstuvwxyzABCDEFGHIJKLMNOPQRSTUVWXYZ''"

definition digits :: string where
  "digits = ''0123456789''"

definition punctuation :: string where
  "punctuation =
     [CHR 0x21, CHR 0x22, CHR 0x23, CHR 0x24, CHR 0x25, CHR 0x26, CHR 0x27, CHR 0x28,
      CHR 0x29, CHR 0x2A, CHR 0x2B, CHR 0x2C, CHR 0x2D, CHR 0x2E, CHR 0x2F, CHR 0x3A,
      CHR 0x3B, CHR 0x3C, CHR 0x3D, CHR 0x3E, CHR 0x3F, CHR 0x40, CHR 0x5B, CHR 0x5C,
      CHR 0x5D, CHR 0x5E, CHR 0x5F, CHR 0x60, CHR 0x7B, CHR 0x7C, CHR 0x7D, CHR 0x7E]"

definition characters :: string where
  "characters = ascii_letters @ digits @ punctuation"

text \<open>
  \<open>random.choice(seq)\<close> is \<open>seq[randbelow(len(seq))]\<close>. The generator is a parameter:
  \<open>rnd k\<close> is its \<open>k\<close>-th raw draw, reduced below the length of the sequence.
\<close>

definition choice :: "nat \<Rightarrow> 'a list \<Rightarrow> 'a" where
  "choice r seq = seq ! (r mod length seq)"

definition generate_password :: "(nat \<Rightarrow> nat) \<Rightarrow> nat \<Rightarrow> string" where
  "generate_password rnd len = map (\<lambda>k. choice (rnd k) characters) [0 ..< len]"

text \<open>
  Line 233, \<open>args.password or extractor.generate_password()\<close>: \<open>or\<close> takes its right
  operand when the left one is \<open>None\<close> or the empty string.
\<close>

definition choose_password :: "string option \<Rightarrow> (nat \<Rightarrow> nat) \<Rightarrow> string" where
  "choose_password given rnd =
     (case given of
        None \<Rightarrow> generate_password rnd 16
      | Some s \<Rightarrow> if s \<noteq> [] then s else generate_password rnd 16)"

record args =
  input_file :: path
  output_dir :: path
  password :: "string option"


section \<open>Sample inputs\<close>

text \<open>A library environment in which every document library raises.\<close>

definition failing_libs :: libs where
  "failing_libs =
     \<lparr>PdfReader = (\<lambda>_. Inl (Exn LibraryError ''EOF marker not found'')),
      convert_from_path = (\<lambda>_. Inl (Exn LibraryError ''Unable to get page count'')),
      Document = (\<lambda>_. Inl (Exn LibraryError ''Package not found'')),
      Presentation = (\<lambda>_. Inl (Exn LibraryError ''Package not found'')),
      decode_ignore = (\<lambda>c. case c of Bytes s \<Rightarrow> s | Zip _ \<Rightarrow> []),
      image_to_string = (\<lambda>_. Inl (Exn LibraryError ''cannot identify image file''))\<rparr>"

text \<open>A PDF of the given page texts, which pdf2image cannot render.\<close>

definition pdf_libs :: "string list \<Rightarrow> libs" where
  "pdf_libs page_texts = failing_libs\<lparr>PdfReader := (\<lambda>_. Inr (map Inr page_texts))\<rparr>"

text \<open>An output folder \<open>out\<close> that holds one text file of 10 bytes.\<close>

definition one_file_folder :: node where
  "one_file_folder =
     Dir [(''out'', Dir [(''text'', Dir [(''extracted_text.txt'', File (Bytes ''0123456789''))]),
                          (''images'', Dir [])])]"


text \<open>A directory that holds the input \<open>report.pdf\<close> and nothing else.\<close>

definition pdf_only :: node where
  "pdf_only = Dir [(''report.pdf'', File (Bytes ''%PDF''))]"


text \<open>A directory that holds a file \<open>data.xyz\<close>.\<close>

definition xyz_only :: node where
  "xyz_only = Dir [(''data.xyz'', File (Bytes ''abc''))]"

text \<open>
  The same after \<open>extract_content\<close> has created the output folder \<open>out/report\<close>.
\<close>

definition pdf_prepared :: node where
  "pdf_prepared =
     Dir [(''report.pdf'', File (Bytes ''%PDF'')),
          (''out'', Dir [(''report'', Dir [(''text'', Dir []), (''images'', Dir [])])])]"

section \<open>The text of a PDF as the specification describes it\<close>

text \<open>
  One block per page whose text is not blank, in page order, headed \<open>--- Page N ---\<close>
  with \<open>N\<close> the number of the page counted from 1.
\<close>

definition spec_page_blocks :: "string list \<Rightarrow> string list" where
  "spec_page_blocks pages =
     [page_block (Suc i) (pages ! i). i \<leftarrow> [0 ..< length pages], strip (pages ! i) \<noteq> []]"

section \<open>The directory tree: lookup after an update\<close>

declare mkdir_parents.simps [simp del]
declare str_nat.simps [simp del]

lemma map_of_set_entry:
  "map_of (set_entry c v es) k = (if k = c then v else map_of es k)"
  by (induction c v es rule: set_entry.induct) (auto split: option.splits)

lemma lookup_append:
  "lookup (p @ q) t = (case lookup p t of None \<Rightarrow> None | Some n \<Rightarrow> lookup q n)"
  by (induction p arbitrary: t) (auto split: node.splits option.splits)

lemma update_lookup_same:
  "update q v t = Some t' \<Longrightarrow> lookup q t' = v"
proof (induction q arbitrary: t t')
  case Nil
  then show ?case by simp
next
  case (Cons c cs)
  then show ?case
    by (auto simp: map_of_set_entry split: node.splits if_splits option.splits)
qed


lemma update_lookup_other:
  "update q v t = Some t' \<Longrightarrow> \<not> prefix q p \<Longrightarrow> \<not> prefix p q \<Longrightarrow> lookup p t' = lookup p t"
proof (induction q arbitrary: p t t')
  case Nil
  then show ?case by simp
next
  case (Cons c cs)
  then obtain a ps where p: "p = a # ps" by (cases p) auto
  from Cons.prems obtain es where t: "t = Dir es" by (cases t) auto
  show ?case
  proof (cases "a = c")
    case False
    with Cons.prems p t show ?thesis
      by (auto simp: map_of_set_entry split: if_splits option.splits)
  next
    case True
    with Cons.prems p have cs: "cs \<noteq> []" "\<not> prefix cs ps" "\<not> prefix ps cs" by auto
    with Cons.prems t obtain m m' where m: "map_of es c = Some m" "update cs v m = Some m'"
      "t' = Dir (set_entry c (Some m') es)"
      by (auto split: option.splits)
    from Cons.IH[OF m(2) cs(2) cs(3)] have "lookup ps m' = lookup ps m" .
    with True p t m show ?thesis by (simp add: map_of_set_entry)
  qed
qed


lemma update_exists:
  "lookup p t = Some n \<Longrightarrow> p \<noteq> [] \<Longrightarrow> \<exists>t'. update p v t = Some t'"
proof (induction p arbitrary: t)
  case Nil
  then show ?case by simp
next
  case (Cons c cs)
  from Cons.prems obtain es where t: "t = Dir es" by (cases t) auto
  show ?case
  proof (cases "cs = []")
    case True
    with t show ?thesis by simp
  next
    case False
    from Cons.prems t obtain m where m: "map_of es c = Some m" "lookup cs m = Some n"
      by (auto split: option.splits)
    from Cons.IH[OF m(2) False] obtain m' where "update cs v m = Some m'" by blast
    with t m False show ?thesis by simp
  qed
qed

lemma lookup_File_below:
  "lookup p t = Some (File c) \<Longrightarrow> r \<noteq> [] \<Longrightarrow> lookup (p @ r) t = None"
  by (cases r) (simp_all add: lookup_append)







section \<open>The handlers keep directories\<close>
















section \<open>Properties of extract_content\<close>





text \<open>
  C7 as amended. For an input path whose lowercased suffix is none of the nine
  recognized ones, \<open>extract_content\<close> changes nothing in the file system and raises:
  a \<open>ValueError\<close> naming the suffix when the path exists, the \<open>FileNotFoundError\<close> of
  the earlier check when it does not.
\<close>

theorem unsupported_extension_rejected:
  assumes "lower (suffix_of inp) \<notin>
             {''.pdf'', ''.docx'', ''.pptx'', ''.txt'', ''.jpg'', ''.jpeg'', ''.png'', ''.bmp'', ''.tiff''}"
  shows "extract_content L inp out fs =
           (fs, Inl (if exists inp fs
                     then Exn ValueError (''Unsupported file format: '' @ lower (suffix_of inp))
                     else Exn FileNotFoundError (''File not found: '' @ path_str inp)))"
proof -
  from assms have "select_handler inp = None"
    by (simp add: select_handler_def supported_formats_def)
  then show ?thesis
    by (simp add: extract_content_def prepare_def)
qed

theorem unsupported_extension_rejected_witness:
  "extract_content failing_libs [''data.xyz''] [''out''] xyz_only =
     (xyz_only, Inl (Exn ValueError ''Unsupported file format: .xyz''))"
proof -
  have s: "lower (suffix_of [''data.xyz'']) = ''.xyz''" by code_simp
  have x: "exists [''data.xyz''] xyz_only" by code_simp
  have "lower (suffix_of [''data.xyz'']) \<notin>
          {''.pdf'', ''.docx'', ''.pptx'', ''.txt'', ''.jpg'', ''.jpeg'', ''.png'', ''.bmp'', ''.tiff''}"
    by (simp add: s)
  from unsupported_extension_rejected[OF this, of failing_libs "[''out'']" xyz_only] s x
  show ?thesis by simp
qed

text \<open>
  The claim as stated fails for a path that does not exist: the suffix \<open>.xyz\<close> is not
  recognized, and the error is the \<open>FileNotFoundError\<close>, not a \<open>ValueError\<close>.
\<close>

theorem unsupported_extension_missing_file_counterexample:
  "lower (suffix_of [''missing.xyz'']) = ''.xyz'' \<and>
   extract_content failing_libs [''missing.xyz''] [''out''] pdf_only =
     (pdf_only, Inl (Exn FileNotFoundError ''File not found: missing.xyz''))"
  by code_simp

text \<open>
  C8. Two input paths whose suffixes are equal after lowercasing select the same
  handler (or are both unsupported).
\<close>

theorem handler_depends_on_lowercase_suffix:
  "lower (suffix_of p1) = lower (suffix_of p2) \<Longrightarrow> select_handler p1 = select_handler p2"
  by (simp add: select_handler_def)

theorem handler_depends_on_lowercase_suffix_witness:
  "select_handler [''Report.PDF''] = select_handler [''report.pdf''] \<and>
   select_handler [''report.pdf''] = Some Extract_pdf"
proof -
  have "lower (suffix_of [''Report.PDF'']) = lower (suffix_of [''report.pdf''])" by code_simp
  from handler_depends_on_lowercase_suffix[OF this]
  have "select_handler [''Report.PDF''] = select_handler [''report.pdf'']" .
  moreover have "select_handler [''report.pdf''] = Some Extract_pdf" by code_simp
  ultimately show ?thesis by simp
qed

section \<open>Properties of the PDF handler\<close>

lemma upt_0_Suc_shift: "[0 ..< Suc k] = 0 # map Suc [0 ..< k]"
  by (simp add: upt_conv_Cons map_Suc_upt del: upt_Suc)

lemma pdf_pages_blocks:
  "pdf_pages acc n (map Inr pages) =
     Inr (acc @ [page_block (n + i) (pages ! i).
                   i \<leftarrow> [0 ..< length pages], strip (pages ! i) \<noteq> []])"
proof (induction pages arbitrary: acc n)
  case Nil
  then show ?case by simp
next
  case (Cons t ts)
  show ?case
    by (simp add: Cons.IH upt_0_Suc_shift comp_def del: upt_Suc cong: if_cong)
qed

lemma spec_page_blocks_empty:
  "spec_page_blocks pages = [] \<longleftrightarrow> list_all (\<lambda>t. strip t = []) pages"
proof -
  have "spec_page_blocks pages = [] \<longleftrightarrow> (\<forall>i<length pages. strip (pages ! i) = [])"
    unfolding spec_page_blocks_def concat_eq_Nil_conv
    by (simp only: set_map set_upt ball_simps atLeastLessThan_iff) (auto split: if_splits)
  also have "\<dots> \<longleftrightarrow> (\<forall>t\<in>set pages. strip t = [])"
    by (simp add: all_set_conv_all_nth)
  finally show ?thesis by (simp add: list_all_iff)
qed

lemma write_file_lookup:
  "write_file p c fs = Inr fs' \<Longrightarrow> lookup p fs' = Some (File c)"
  by (auto simp: write_file_def os_error_def update_lookup_same split: option.splits node.splits)

text \<open>
  C6 as amended. For a PDF whose pages all yield a text, the text part of the handler
  writes nothing when every page is blank (empty once \<open>strip\<close> has removed the
  whitespace around it); otherwise it writes one text file, which holds, in page order,
  one block \<open>--- Page N ---\<close> for each page that is not blank, \<open>N\<close> counting the
  pages from 1.
\<close>

theorem pdf_text_blocks:
  assumes "read_file fp fs = Inr bytes" and "PdfReader L bytes = Inr (map Inr pages)"
  shows "pdf_text L fp tf fs =
           (if list_all (\<lambda>t. strip t = []) pages then (fs, None)
            else case write_file (text_file tf) (Bytes (concat (spec_page_blocks pages))) fs of
                   Inl e \<Rightarrow> (fs, Some e)
                 | Inr fs' \<Rightarrow> (fs', None)) \<and>
         (\<not> list_all (\<lambda>t. strip t = []) pages \<and> snd (pdf_text L fp tf fs) = None \<longrightarrow>
            lookup (text_file tf) (fst (pdf_text L fp tf fs)) =
              Some (File (Bytes (concat (spec_page_blocks pages)))))"
proof -
  have b: "pdf_pages [] 1 (map Inr pages) = Inr (spec_page_blocks pages)"
    by (simp add: pdf_pages_blocks spec_page_blocks_def cong: if_cong)
  have 1: "pdf_text L fp tf fs =
           (if list_all (\<lambda>t. strip t = []) pages then (fs, None)
            else case write_file (text_file tf) (Bytes (concat (spec_page_blocks pages))) fs of
                   Inl e \<Rightarrow> (fs, Some e)
                 | Inr fs' \<Rightarrow> (fs', None))"
    using assms b by (simp add: pdf_text_def spec_page_blocks_empty)
  then show ?thesis
    by (auto split: sum.splits dest: write_file_lookup)
qed

text \<open>
  The scenario of the specification: three pages, the second one blank, give the blocks
  of pages 1 and 3.
\<close>

theorem pdf_text_blocks_witness:
  "pdf_text (pdf_libs [''A'', '''', ''C'']) [''report.pdf''] [''out'', ''report'', ''text''] pdf_prepared =
     (Dir [(''report.pdf'', File (Bytes ''%PDF'')),
           (''out'', Dir [(''report'',
              Dir [(''text'', Dir [(''extracted_text.txt'',
                      File (Bytes (''--- Page 1 ---'' @ [CHR 0x0A] @ ''A'' @ [CHR 0x0A] @
                                   ''--- Page 3 ---'' @ [CHR 0x0A] @ ''C'' @ [CHR 0x0A])))]),
                   (''images'', Dir [])])])],
      None)"
proof -
  have r: "read_file [''report.pdf''] pdf_prepared = Inr (Bytes ''%PDF'')" by code_simp
  have l: "PdfReader (pdf_libs [''A'', '''', ''C'']) (Bytes ''%PDF'') = Inr (map Inr [''A'', '''', ''C''])"
    by code_simp
  have n: "\<not> list_all (\<lambda>t. strip t = []) [''A'', '''', ''C'']" by code_simp
  have c: "concat (spec_page_blocks [''A'', '''', ''C'']) =
             ''--- Page 1 ---'' @ [CHR 0x0A] @ ''A'' @ [CHR 0x0A] @
             ''--- Page 3 ---'' @ [CHR 0x0A] @ ''C'' @ [CHR 0x0A]"
    by code_simp
  have w: "write_file (text_file [''out'', ''report'', ''text''])
             (Bytes (''--- Page 1 ---'' @ [CHR 0x0A] @ ''A'' @ [CHR 0x0A] @
                     ''--- Page 3 ---'' @ [CHR 0x0A] @ ''C'' @ [CHR 0x0A])) pdf_prepared =
           Inr (Dir [(''report.pdf'', File (Bytes ''%PDF'')),
           (''out'', Dir [(''report'',
              Dir [(''text'', Dir [(''extracted_text.txt'',
                      File (Bytes (''--- Page 1 ---'' @ [CHR 0x0A] @ ''A'' @ [CHR 0x0A] @
                                   ''--- Page 3 ---'' @ [CHR 0x0A] @ ''C'' @ [CHR 0x0A])))]),
                   (''images'', Dir [])])])])"
    by code_simp
  from pdf_text_blocks[OF r l, of "[''out'', ''report'', ''text'']"]
  have "pdf_text (pdf_libs [''A'', '''', ''C'']) [''report.pdf''] [''out'', ''report'', ''text''] pdf_prepared =
          (if list_all (\<lambda>t. strip t = []) [''A'', '''', ''C''] then (pdf_prepared, None)
           else case write_file (text_file [''out'', ''report'', ''text''])
                  (Bytes (concat (spec_page_blocks [''A'', '''', ''C'']))) pdf_prepared of
             Inl e \<Rightarrow> (pdf_prepared, Some e)
           | Inr fs' \<Rightarrow> (fs', None))"
    by (rule conjunct1)
  with n
  have "pdf_text (pdf_libs [''A'', '''', ''C'']) [''report.pdf''] [''out'', ''report'', ''text''] pdf_prepared =
          (case write_file (text_file [''out'', ''report'', ''text''])
                  (Bytes (concat (spec_page_blocks [''A'', '''', ''C'']))) pdf_prepared of
             Inl e \<Rightarrow> (pdf_prepared, Some e)
           | Inr fs' \<Rightarrow> (fs', None))"
    by (simp only: if_False)
  then show ?thesis unfolding c w by simp
qed

text \<open>
  The claim as stated fails for a page whose text is not empty but blank: a single page
  with the text of one space gets no block, and no file is written.
\<close>

theorem pdf_text_whitespace_page_counterexample:
  "'' '' \<noteq> [] \<and>
   pdf_text (pdf_libs ['' '']) [''report.pdf''] [''out'', ''report'', ''text''] pdf_prepared =
     (pdf_prepared, None)"
  by code_simp

section \<open>Properties of the password\<close>

lemma choice_in_set:
  "seq \<noteq> [] \<Longrightarrow> choice r seq \<in> set seq"
  by (simp add: choice_def)

lemma characters_nth:
  "choice r characters \<in> set characters"
  by (rule choice_in_set) (simp add: characters_def ascii_letters_def)

lemma generate_password_chars:
  "set (generate_password rnd n) \<subseteq> set ascii_letters \<union> set digits \<union> set punctuation"
proof -
  have "set (generate_password rnd n) \<subseteq> set characters"
    using characters_nth by (auto simp: generate_password_def)
  then show ?thesis by (simp add: characters_def Un_assoc)
qed

text \<open>
  C5 as amended. With no password given, the password used has 16 characters, each a
  letter, a digit or a punctuation character; a given password that is not empty is
  used as it is; a given empty password is replaced by a generated one.
\<close>

theorem password_contract:
  "length (choose_password None rnd) = 16 \<and>
   set (choose_password None rnd) \<subseteq> set ascii_letters \<union> set digits \<union> set punctuation \<and>
   (s \<noteq> [] \<longrightarrow> choose_password (Some s) rnd = s) \<and>
   choose_password (Some []) rnd = choose_password None rnd"
  using generate_password_chars[of rnd 16]
  by (simp add: choose_password_def generate_password_def)

theorem password_contract_witness:
  "length (choose_password None (\<lambda>k. 7 * k + 3)) = 16 \<and>
   choose_password (Some ''hunter2'') (\<lambda>k. 7 * k + 3) = ''hunter2''"
  using password_contract[of "\<lambda>k. 7 * k + 3" "''hunter2''"] by simp

text \<open>
  The claim as stated fails for the empty string, which a caller can supply with
  \<open>-p ""\<close>: the password used is a generated one of 16 characters.
\<close>

theorem empty_password_replaced_counterexample:
  "length (choose_password (Some []) (\<lambda>k. 7 * k + 3)) = 16 \<and>
   choose_password (Some []) (\<lambda>k. 7 * k + 3) \<noteq> []"
  by code_simp

section \<open>Paths beside the folder\<close>

lemma same_length_not_prefix:
  "length p = length q \<Longrightarrow> p \<noteq> q \<Longrightarrow> \<not> prefix p q"
  by (auto simp: prefix_def)

lemma update_lookup_sibling:
  assumes "update q v fs = Some fs'" and "length p = length q" and "p \<noteq> q"
  shows "lookup p fs' = lookup p fs"
proof -
  from assms(2,3) have "\<not> prefix q p" "\<not> prefix p q"
    using same_length_not_prefix[of p q] same_length_not_prefix[of q p] by auto
  with assms(1) show ?thesis by (rule update_lookup_other)
qed

lemma write_file_sibling:
  "write_file q c fs = Inr fs' \<Longrightarrow> length p = length q \<Longrightarrow> p \<noteq> q \<Longrightarrow> lookup p fs' = lookup p fs"
  by (auto simp: write_file_def os_error_def split: option.splits node.splits
      intro: update_lookup_sibling)




lemma ZipFile_close_lookup:
  assumes "exists p fs" and "p \<noteq> []"
  shows "lookup p (ZipFile_close p ms fs) = Some (File (Zip ms))"
proof -
  from assms obtain fs' where "update p (Some (File (Zip ms))) fs = Some fs'"
    using update_exists[of p fs _ "Some (File (Zip ms))"] by (auto simp: exists_def)
  then show ?thesis by (simp add: ZipFile_close_def update_lookup_same)
qed



lemma path_plus_length:
  "p \<noteq> [] \<Longrightarrow> length (path_plus p s) = length p"
  by (simp add: path_plus_def)

lemma path_plus_neq:
  "s \<noteq> [] \<Longrightarrow> path_plus p s \<noteq> p"
proof (cases "p = []")
  case True
  then show ?thesis by (simp add: path_plus_def)
next
  case False
  assume s: "s \<noteq> []"
  show ?thesis
  proof
    assume "path_plus p s = p"
    with False have "butlast p @ [last p @ s] = butlast p @ [last p]"
      by (simp add: path_plus_def)
    with s show False by simp
  qed
qed

lemma path_plus_nonempty: "path_plus p s \<noteq> []"
  by (simp add: path_plus_def)

lemma write_walked_all:
  "write_walked acc files =
     (acc @ map (\<lambda>(arcname, c). ZEntry arcname ZIP_DEFLATED False c) files, None)"
  by (induction files arbitrary: acc)
     (auto simp: ZipFile_write_def check_compression_def)

lemma copy_items_raises:
  "copy_items acc (item # items) =
     (acc, Some (if encrypted item then Exn RuntimeError ''password required for extraction''
                 else Exn NotImplementedError ''That compression method is not supported''))"
  by (simp add: ZipFile_read_def ZipFile_writestr_def check_compression_def)








section \<open>Properties of encrypt_folder\<close>

text \<open>
  C9. The password has no influence on what \<open>encrypt_folder\<close> does: for every folder,
  every file system and any two passwords, the file system left behind (the archive
  included) and the outcome are the same.
\<close>

theorem encrypt_folder_password_noninterference:
  "encrypt_folder folder_path password1 fs = encrypt_folder folder_path password2 fs"
  by (simp add: encrypt_folder_def)

text \<open>
  C2, at its failing inputs. Whenever the folder holds at least one file,
  \<open>encrypt_folder\<close> raises instead of returning an archive: the second loop hands
  \<open>writestr\<close> a \<open>ZipInfo\<close> as compression method, which \<open>_check_compression\<close>
  rejects for the first member (unless opening one of the two archives failed before).
\<close>

theorem encrypt_folder_raises_on_nonempty_folder:
  assumes f: "folder \<noteq> []" and w: "os_walk folder fs \<noteq> []"
  shows "isl (snd (encrypt_folder folder pw fs))"
proof -
  let ?zip = "path_plus folder ''.zip''" and ?temp = "path_plus folder ''_temp.zip''"
  show ?thesis
  proof (cases "write_file ?zip (Bytes []) fs")
    case (Inl e)
    then show ?thesis by (simp add: encrypt_folder_def archive_folder_def)
  next
    case (Inr fs1)
    from f have lz: "length folder = length ?zip" by (simp add: path_plus_length)
    have nz: "folder \<noteq> ?zip" using path_plus_neq[of "''.zip''" folder] by auto
    from write_file_sibling[OF Inr lz nz] have "os_walk folder fs1 = os_walk folder fs"
      by (simp add: os_walk_def)
    with w have "map (\<lambda>(arcname, c). ZEntry arcname ZIP_DEFLATED False c) (os_walk folder fs1) \<noteq> []"
      by simp
    then obtain item items where
      zs: "map (\<lambda>(arcname, c). ZEntry arcname ZIP_DEFLATED False c) (os_walk folder fs1) = item # items"
      by (meson neq_Nil_conv)
    let ?fs2 = "ZipFile_close ?zip (item # items) fs1"
    from Inr zs have a: "archive_folder folder ?zip fs = (?fs2, None)"
      by (simp add: archive_folder_def write_walked_all)
    from write_file_lookup[OF Inr] have "exists ?zip fs1" by (simp add: exists_def)
    from ZipFile_close_lookup[OF this path_plus_nonempty]
    have rd: "read_file ?zip ?fs2 = Inr (Zip (item # items))" by (simp add: read_file_def)
    show ?thesis
    proof (cases "write_file ?temp (Bytes []) ?fs2")
      case (Inl e)
      with a rd show ?thesis by (simp add: encrypt_folder_def rewrite_archive_def)
    next
      case t: (Inr fs3)
      with a rd show ?thesis
        by (simp add: encrypt_folder_def rewrite_archive_def copy_items_raises del: copy_items.simps)
    qed
  qed
qed

theorem encrypt_folder_raises_on_nonempty_folder_witness:
  "os_walk [''out''] one_file_folder = [([''text'', ''extracted_text.txt''], Bytes ''0123456789'')] \<and>
   isl (snd (encrypt_folder [''out''] ''secret'' one_file_folder))"
proof -
  have w: "os_walk [''out''] one_file_folder = [([''text'', ''extracted_text.txt''], Bytes ''0123456789'')]"
    by code_simp
  then have "os_walk [''out''] one_file_folder \<noteq> []" by simp
  from encrypt_folder_raises_on_nonempty_folder[OF _ this, of "''secret''"] w show ?thesis by simp
qed

text \<open>
  C1, at a failing input: a folder with one file, packaged with the password
  \<open>secret\<close>. The call raises; the archive it leaves at \<open>out.zip\<close> holds the file as a
  member that is not encrypted, which reads back with no password.
\<close>

theorem encrypt_folder_applies_no_password:
  "encrypt_folder [''out''] ''secret'' one_file_folder =
     (Dir [(''out'', Dir [(''text'', Dir [(''extracted_text.txt'', File (Bytes ''0123456789''))]),
                          (''images'', Dir [])]),
           (''out.zip'', File (Zip [ZEntry [''text'', ''extracted_text.txt''] ZIP_DEFLATED False
                                      (Bytes ''0123456789'')])),
           (''out_temp.zip'', File (Zip []))],
      Inl (Exn NotImplementedError ''That compression method is not supported'')) \<and>
   ZipFile_read (ZEntry [''text'', ''extracted_text.txt''] ZIP_DEFLATED False (Bytes ''0123456789'')) =
     Inr (Bytes ''0123456789'')"
  by code_simp




end
